theory Spec2Isabelle
  imports Complex_Main "HOL-Library.Word"
begin

unbundle bit_operations_syntax

section \<open>Data model of SMCBridge.c\<close>

text \<open>
  A C \<open>char\<close> or \<open>uint8_t\<close> is a byte, \<open>uint32_t\<close> and \<open>int\<close> are 32-bit words
  (\<open>sint\<close> reads an \<open>int\<close>). A buffer reached through a pointer is the list of its bytes,
  so a key given as the C string \<open>"AB"\<close> is the three bytes \<open>0x41, 0x42, 0x00\<close>.
  Reading or writing past the end of a buffer is the fault \<open>OutOfBounds\<close>.
\<close>

type_synonym byte = "8 word"

datatype fault = OutOfBounds

text \<open>A string literal of the source, with its terminating NUL.\<close>

definition c_lit :: "string \<Rightarrow> byte list" where
  "c_lit s = map of_char s @ [0]"

section \<open>Key codec\<close>

text \<open>
  \<open>strtoul_b\<close>, lines 32 to 42: the loop reads \<open>str[i]\<close> for every \<open>i < size\<close>, with
  no test for the terminator. Both branches on \<open>base\<close> are the same expression, as in
  the source. The shifted byte is an \<open>int\<close> that \<open>+=\<close> converts to \<open>uint32_t\<close>; the
  model computes it in a 32-bit word. The source's \<open>size\<close> and \<open>total\<close> are \<open>sz\<close> and
  \<open>tot\<close> here, since both names are constants of HOL.
\<close>

function strtoul_b_loop :: "byte list \<Rightarrow> int \<Rightarrow> int \<Rightarrow> int \<Rightarrow> 32 word \<Rightarrow> fault + 32 word" where
  "strtoul_b_loop str sz base i tot =
     (if i < sz then
        (if 0 \<le> i \<and> nat i < length str then
           (if base = 16 then
              strtoul_b_loop str sz base (i + 1)
                (tot + push_bit (nat ((sz - 1 - i) * 8)) (ucast (str ! nat i)))
            else
              strtoul_b_loop str sz base (i + 1)
                (tot + push_bit (nat ((sz - 1 - i) * 8)) (ucast (str ! nat i))))
         else Inl OutOfBounds)
      else Inr tot)"
  by pat_completeness auto
termination
  by (relation "measure (\<lambda>(str, sz, base, i, tot). nat (sz - i))") auto

definition strtoul_b :: "byte list \<Rightarrow> int \<Rightarrow> int \<Rightarrow> fault + 32 word" where
  "strtoul_b str sz base = strtoul_b_loop str sz base 0 0"

text \<open>
  \<open>ultoa_b\<close>, lines 44 to 48: writes \<open>size\<close> bytes of \<open>val\<close> into \<open>str\<close>, most
  significant first, and returns the buffer.
\<close>

function ultoa_b_loop :: "32 word \<Rightarrow> byte list \<Rightarrow> int \<Rightarrow> int \<Rightarrow> fault + byte list" where
  "ultoa_b_loop val str sz i =
     (if i < sz then
        (if 0 \<le> i \<and> nat i < length str then
           ultoa_b_loop val
             (str[nat i := ucast (drop_bit (nat ((sz - 1 - i) * 8)) val AND 0xFF)])
             sz (i + 1)
         else Inl OutOfBounds)
      else Inr str)"
  by pat_completeness auto
termination
  by (relation "measure (\<lambda>(val, str, sz, i). nat (sz - i))") auto

definition ultoa_b :: "32 word \<Rightarrow> byte list \<Rightarrow> int \<Rightarrow> fault + byte list" where
  "ultoa_b val str sz = ultoa_b_loop val str sz 0"

text \<open>
  \<open>strncpy(dst, src, n)\<close> of the C library: copies bytes of \<open>src\<close> up to and including
  its terminator, at most \<open>n\<close>, and fills the rest of the \<open>n\<close> bytes with NUL.
  \<open>strncpy_bytes\<close> is the \<open>n\<close> bytes written.
\<close>

fun strncpy_bytes :: "byte list \<Rightarrow> nat \<Rightarrow> fault + byte list" where
  "strncpy_bytes src 0 = Inr []"
| "strncpy_bytes [] (Suc n) = Inl OutOfBounds"
| "strncpy_bytes (c # cs) (Suc n) =
     (if c = 0 then Inr (replicate (Suc n) 0)
      else (case strncpy_bytes cs n of Inl e \<Rightarrow> Inl e | Inr w \<Rightarrow> Inr (c # w)))"

definition strncpy :: "byte list \<Rightarrow> byte list \<Rightarrow> nat \<Rightarrow> fault + byte list" where
  "strncpy dst src n =
     (case strncpy_bytes src n of
        Inl e \<Rightarrow> Inl e
      | Inr w \<Rightarrow> if n \<le> length dst then Inr (w @ drop n dst) else Inl OutOfBounds)"

text \<open>
  \<open>strcmp\<close> of the C library: compares byte by byte as unsigned chars and stops at the
  first difference or at a common NUL. The end of a buffer reads as a terminator; the
  source only compares the 5-byte \<open>dataType\<close> field with 4-character literals, which
  is decided within the first 5 bytes of both.
\<close>

fun strcmp :: "byte list \<Rightarrow> byte list \<Rightarrow> int" where
  "strcmp [] [] = 0"
| "strcmp [] (y # ys) = - int (unat y)"
| "strcmp (x # xs) [] = int (unat x)"
| "strcmp (x # xs) (y # ys) =
     (if x \<noteq> y then int (unat x) - int (unat y)
      else if x = 0 then 0
      else strcmp xs ys)"

section \<open>Records of the source\<close>

text \<open>
  \<open>SMCVal_t\<close>, lines 10 to 15: \<open>key\<close> and \<open>dataType\<close> are \<open>char[5]\<close>, \<open>bytes\<close> is
  \<open>uint8_t[32]\<close>. Field names carry the record's name, since \<open>key\<close>, \<open>dataSize\<close>,
  \<open>dataType\<close> and \<open>bytes\<close> occur in more than one struct.
\<close>

record SMCVal_t =
  val_key :: "byte list"
  val_dataSize :: "32 word"
  val_dataType :: "byte list"
  val_bytes :: "byte list"

text \<open>\<open>SMCParamStruct\<close> and its inner \<open>keyInfo\<close> struct, lines 18 to 30.\<close>

record keyInfo_t =
  keyInfo_dataSize :: "32 word"
  keyInfo_dataType :: "32 word"
  keyInfo_dataAttributes :: byte

record SMCParamStruct =
  param_key :: "32 word"
  param_keyInfo :: keyInfo_t
  param_result :: byte
  param_status :: byte
  param_data8 :: byte
  param_data32 :: "32 word"
  param_bytes :: "byte list"

text \<open>What \<open>memset(&x, 0, sizeof x)\<close> leaves in each struct.\<close>

definition zero_SMCVal_t :: SMCVal_t where
  "zero_SMCVal_t =
     \<lparr>val_key = replicate 5 0, val_dataSize = 0, val_dataType = replicate 5 0,
      val_bytes = replicate 32 0\<rparr>"

definition zero_SMCParamStruct :: SMCParamStruct where
  "zero_SMCParamStruct =
     \<lparr>param_key = 0,
      param_keyInfo = \<lparr>keyInfo_dataSize = 0, keyInfo_dataType = 0, keyInfo_dataAttributes = 0\<rparr>,
      param_result = 0, param_status = 0, param_data8 = 0, param_data32 = 0,
      param_bytes = replicate 32 0\<rparr>"

definition KERNEL_INDEX_SMC :: "32 word" where
  "KERNEL_INDEX_SMC = 2"

definition SMC_CMD_READ_BYTES :: byte where
  "SMC_CMD_READ_BYTES = 5"

definition SMC_CMD_READ_KEYINFO :: byte where
  "SMC_CMD_READ_KEYINFO = 9"

text \<open>\<open>kIOReturnSuccess\<close> of IOKit, a \<open>kern_return_t\<close> (a 32-bit \<open>int\<close>).\<close>

definition kIOReturnSuccess :: "32 word" where
  "kIOReturnSuccess = 0"

section \<open>Value decoder\<close>

text \<open>
  A C \<open>double\<close>. Every number the decoder computes from integers is exactly
  representable, so a finite value is its rational number; the \<open>flt\<close> row can also
  give a negative zero, an infinity (\<open>True\<close> for the negative one) or a NaN.
\<close>

datatype double = Finite rat | MinusZero | Infinity bool | NaN

text \<open>
  Lines 111 and 112: \<open>*(float *)&bits\<close> reads the word as an IEEE-754 binary32 value
  (sign bit 31, exponent bits 30 to 23, fraction bits 22 to 0), and its conversion to
  \<open>double\<close> is exact.
\<close>

definition float_bits_to_double :: "32 word \<Rightarrow> double" where
  "float_bits_to_double bits =
     (let s = bit bits 31;
          e = unat (drop_bit 23 bits AND 0xFF);
          m = unat (bits AND 0x7FFFFF);
          sg = (if s then - 1 else 1 :: rat)
      in if e = 255 then (if m = 0 then Infinity s else NaN)
         else if e = 0 then
           (if m = 0 then (if s then MinusZero else Finite 0)
            else Finite (sg * of_nat m / 2 ^ 149))
         else Finite (sg * of_nat (2 ^ 23 + m) * 2 ^ e / 2 ^ 150))"

text \<open>
  \<open>convertValue\<close>, lines 91 to 127. A \<open>uint8_t\<close> operand of \<open><<\<close> or \<open>|\<close> is promoted
  to \<open>int\<close>, so each such expression is a 32-bit word read with \<open>sint\<close>; a shift into
  the sign bit wraps to a negative \<open>int\<close>, as the compiled code does. The assignment to
  \<open>int16_t\<close> or \<open>uint16_t\<close> keeps the low 16 bits.
\<close>

definition convertValue :: "SMCVal_t \<Rightarrow> double" where
  "convertValue val =
     (if val_dataSize val = 0 then Finite 0
      else if strcmp (val_dataType val) (c_lit ''sp78'') = 0 \<and> val_dataSize val = 2 then
        (let value = (ucast (push_bit 8 (ucast (val_bytes val ! 0) :: 32 word)
                        OR ucast (val_bytes val ! 1)) :: 16 word)
         in Finite (of_int (sint value) / 256))
      else if strcmp (val_dataType val) (c_lit ''fpe2'') = 0 \<and> val_dataSize val = 2 then
        (let value = (ucast (push_bit 8 (ucast (val_bytes val ! 0) :: 32 word)
                        OR ucast (val_bytes val ! 1)) :: 16 word)
         in Finite (of_nat (unat value) / 4))
      else if strcmp (val_dataType val) (c_lit ''flt '') = 0 \<and> val_dataSize val = 4 then
        (let bits = (push_bit 24 (ucast (val_bytes val ! 0)) OR push_bit 16 (ucast (val_bytes val ! 1))
                       OR push_bit 8 (ucast (val_bytes val ! 2)) OR ucast (val_bytes val ! 3) :: 32 word)
         in float_bits_to_double bits)
      else if strcmp (val_dataType val) (c_lit ''ui8 '') = 0 then
        Finite (of_nat (unat (val_bytes val ! 0)))
      else if strcmp (val_dataType val) (c_lit ''ui16'') = 0 \<and> val_dataSize val = 2 then
        Finite (of_int (sint (push_bit 8 (ucast (val_bytes val ! 0)) OR ucast (val_bytes val ! 1) :: 32 word)))
      else if strcmp (val_dataType val) (c_lit ''ui32'') = 0 \<and> val_dataSize val = 4 then
        Finite (of_int (sint (push_bit 24 (ucast (val_bytes val ! 0)) OR push_bit 16 (ucast (val_bytes val ! 1))
                                OR push_bit 8 (ucast (val_bytes val ! 2)) OR ucast (val_bytes val ! 3) :: 32 word)))
      else Finite 0)"

section \<open>Controller transport\<close>

text \<open>
  \<open>IOConnectCallStructMethod\<close> is the kernel's: from the state of the world, the
  connection, the selector, the input struct and the output buffer as it stands, it
  gives a status, the output buffer and the next state of the world. Both sizes passed
  are \<open>sizeof(SMCParamStruct)\<close>. The \<open>calls\<close> field lists the requests issued so far.
\<close>

type_synonym 'w io_connect_call =
  "'w \<Rightarrow> 32 word \<Rightarrow> 32 word \<Rightarrow> SMCParamStruct \<Rightarrow> SMCParamStruct \<Rightarrow> 32 word \<times> SMCParamStruct \<times> 'w"

record 'w kernel =
  world :: 'w
  calls :: "(32 word \<times> 32 word \<times> SMCParamStruct) list"

text \<open>\<open>SMCCall\<close>, lines 50 to 55.\<close>

definition SMCCall ::
  "'w io_connect_call \<Rightarrow> 32 word \<Rightarrow> 32 word \<Rightarrow> SMCParamStruct \<Rightarrow> SMCParamStruct \<Rightarrow> 'w kernel
     \<Rightarrow> 32 word \<times> SMCParamStruct \<times> 'w kernel" where
  "SMCCall io conn index inputStruct outputStruct k =
     (case io (world k) conn index inputStruct outputStruct of
        (result, out, w) \<Rightarrow>
          (result, out, k\<lparr>world := w, calls := calls k @ [(conn, index, inputStruct)]\<rparr>))"

text \<open>
  \<open>SMCReadKey2\<close>, lines 57 to 89. The \<open>memset\<close> of line 64 clears \<open>*val\<close>, so what it
  held before is not an argument. The result is the status, \<open>*val\<close> as the function
  leaves it, and the kernel state.
\<close>

definition SMCReadKey2 ::
  "'w io_connect_call \<Rightarrow> 32 word \<Rightarrow> byte list \<Rightarrow> 'w kernel
     \<Rightarrow> fault + (32 word \<times> SMCVal_t \<times> 'w kernel)" where
  "SMCReadKey2 io conn key k =
     (let inputStruct = zero_SMCParamStruct;
          outputStruct = zero_SMCParamStruct;
          val = zero_SMCVal_t
      in case strncpy (val_key val) key 4 of
           Inl e \<Rightarrow> Inl e
         | Inr copied \<Rightarrow>
        (let val = val\<lparr>val_key := copied\<rparr>
         in case strtoul_b key 4 16 of
              Inl e \<Rightarrow> Inl e
            | Inr encoded \<Rightarrow>
           (let inputStruct = inputStruct\<lparr>param_key := encoded, param_data8 := SMC_CMD_READ_KEYINFO\<rparr>
            in case SMCCall io conn KERNEL_INDEX_SMC inputStruct outputStruct k of
                 (result, outputStruct, k) \<Rightarrow>
              if result \<noteq> kIOReturnSuccess then Inr (result, val, k)
              else
                (let val = val\<lparr>val_dataSize := keyInfo_dataSize (param_keyInfo outputStruct)\<rparr>
                 in case ultoa_b (keyInfo_dataType (param_keyInfo outputStruct)) (val_dataType val) 4 of
                      Inl e \<Rightarrow> Inl e
                    | Inr tag \<Rightarrow>
                   (let val = val\<lparr>val_dataType := tag\<rparr>;
                        inputStruct = inputStruct
                          \<lparr>param_keyInfo := (param_keyInfo inputStruct)\<lparr>keyInfo_dataSize := val_dataSize val\<rparr>,
                           param_data8 := SMC_CMD_READ_BYTES\<rparr>
                    in case SMCCall io conn KERNEL_INDEX_SMC inputStruct outputStruct k of
                         (result, outputStruct, k) \<Rightarrow>
                      if result \<noteq> kIOReturnSuccess then Inr (result, val, k)
                      else Inr (kIOReturnSuccess, val\<lparr>val_bytes := param_bytes outputStruct\<rparr>, k))))))"

section \<open>Session facade\<close>

text \<open>
  \<open>SMCReadKey\<close>, lines 145 to 154. \<open>value\<close> is what \<open>*value\<close> holds at the call; the
  result is the status, \<open>*value\<close> at the return, and the kernel state.
\<close>

definition SMCReadKey ::
  "'w io_connect_call \<Rightarrow> 32 word \<Rightarrow> byte list \<Rightarrow> double \<Rightarrow> 'w kernel
     \<Rightarrow> fault + (32 word \<times> double \<times> 'w kernel)" where
  "SMCReadKey io conn key value k =
     (case SMCReadKey2 io conn key k of
        Inl e \<Rightarrow> Inl e
      | Inr (result, val, k') \<Rightarrow>
          Inr (result, if result = kIOReturnSuccess then convertValue val else value, k'))"

section \<open>Vocabulary of the statements\<close>

text \<open>The string a \<open>char\<close> buffer holds: its bytes before the first NUL.\<close>

definition c_string :: "byte list \<Rightarrow> byte list" where
  "c_string buf = takeWhile (\<lambda>c. c \<noteq> 0) buf"

text \<open>
  The two requests of the protocol with every field written out: the key-info request
  for an encoded key, and the read-bytes request for an encoded key and a declared
  size. \<open>type_tag\<close> is the \<open>dataType\<close> buffer after \<open>ultoa_b\<close> has written the four
  bytes of a 32-bit type into the cleared field.
\<close>

definition keyinfo_request :: "32 word \<Rightarrow> SMCParamStruct" where
  "keyinfo_request encoded =
     \<lparr>param_key = encoded,
      param_keyInfo = \<lparr>keyInfo_dataSize = 0, keyInfo_dataType = 0, keyInfo_dataAttributes = 0\<rparr>,
      param_result = 0, param_status = 0, param_data8 = SMC_CMD_READ_KEYINFO, param_data32 = 0,
      param_bytes = replicate 32 0\<rparr>"

definition bytes_request :: "32 word \<Rightarrow> 32 word \<Rightarrow> SMCParamStruct" where
  "bytes_request encoded dataSize =
     \<lparr>param_key = encoded,
      param_keyInfo = \<lparr>keyInfo_dataSize = dataSize, keyInfo_dataType = 0, keyInfo_dataAttributes = 0\<rparr>,
      param_result = 0, param_status = 0, param_data8 = SMC_CMD_READ_BYTES, param_data32 = 0,
      param_bytes = replicate 32 0\<rparr>"

definition type_tag :: "32 word \<Rightarrow> byte list" where
  "type_tag t = [ucast (drop_bit 24 t), ucast (drop_bit 16 t), ucast (drop_bit 8 t), ucast t, 0]"

text \<open>
  Two controllers to run the protocol on. Their world is the number of calls served.
  \<open>controller_stub\<close> answers a key-info request with size 2 and type \<open>sp78\<close>, and a
  read-bytes request with the payload \<open>1A 80\<close>; \<open>failing_stub n status\<close> does the same
  except that its call number \<open>n\<close> returns \<open>status\<close> and leaves the output buffer as
  it is.
\<close>

definition controller_stub :: "nat io_connect_call" where
  "controller_stub w conn index inputStruct outputStruct =
     (if param_data8 inputStruct = SMC_CMD_READ_KEYINFO then
        (kIOReturnSuccess,
         outputStruct\<lparr>param_keyInfo :=
           \<lparr>keyInfo_dataSize = 2, keyInfo_dataType = 0x73703738, keyInfo_dataAttributes = 0\<rparr>\<rparr>,
         Suc w)
      else
        (kIOReturnSuccess, outputStruct\<lparr>param_bytes := [0x1A, 0x80] @ replicate 30 0\<rparr>, Suc w))"

definition failing_stub :: "nat \<Rightarrow> 32 word \<Rightarrow> nat io_connect_call" where
  "failing_stub n status w conn index inputStruct outputStruct =
     (if w = n then (status, outputStruct, Suc w)
      else controller_stub w conn index inputStruct outputStruct)"

section \<open>The loops at size 4\<close>

declare strtoul_b_loop.simps [simp del] ultoa_b_loop.simps [simp del]

lemma strtoul_b_4:
  "strtoul_b (c0 # c1 # c2 # c3 # rest) 4 base =
     Inr (push_bit 24 (ucast c0) + push_bit 16 (ucast c1) + push_bit 8 (ucast c2) + ucast c3)"
  unfolding strtoul_b_def
  apply (subst strtoul_b_loop.simps, simp)
  apply (subst strtoul_b_loop.simps, simp)
  apply (subst strtoul_b_loop.simps, simp)
  apply (subst strtoul_b_loop.simps, simp)
  apply (subst strtoul_b_loop.simps, simp)
  done

lemma short_buffer_shapes:
  assumes "length (str :: byte list) < 4"
  shows "str = [] \<or> (\<exists>a. str = [a]) \<or> (\<exists>a b. str = [a, b]) \<or> (\<exists>a b c. str = [a, b, c])"
proof (cases str)
  case Nil
  then show ?thesis by simp
next
  case c1: (Cons a s1)
  show ?thesis
  proof (cases s1)
    case Nil
    with c1 show ?thesis by simp
  next
    case c2: (Cons b s2)
    show ?thesis
    proof (cases s2)
      case Nil
      with c1 c2 show ?thesis by simp
    next
      case c3: (Cons c s3)
      with c1 c2 assms have "s3 = []" by simp
      with c1 c2 c3 show ?thesis by simp
    qed
  qed
qed

lemma strtoul_b_short:
  assumes "length str < 4"
  shows "strtoul_b str 4 base = Inl OutOfBounds"
proof -
  have 0: "strtoul_b [] 4 base = Inl OutOfBounds"
    unfolding strtoul_b_def by (subst strtoul_b_loop.simps, simp)
  have 1: "strtoul_b [a] 4 base = Inl OutOfBounds" for a
    unfolding strtoul_b_def by (subst strtoul_b_loop.simps, simp)+
  have 2: "strtoul_b [a, b] 4 base = Inl OutOfBounds" for a b
    unfolding strtoul_b_def by (subst strtoul_b_loop.simps, simp)+
  have 3: "strtoul_b [a, b, c] 4 base = Inl OutOfBounds" for a b c
    unfolding strtoul_b_def by (subst strtoul_b_loop.simps, simp)+
  from short_buffer_shapes [OF assms] show ?thesis
    using 0 1 2 3 by auto
qed

lemma strtoul_b_Inr_length:
  assumes "strtoul_b key 4 base = Inr encoded"
  shows "4 \<le> length key"
proof (rule ccontr)
  assume "\<not> 4 \<le> length key"
  then have "strtoul_b key 4 base = Inl OutOfBounds" by (simp add: strtoul_b_short)
  with assms show False by simp
qed

lemma ultoa_b_4:
  "ultoa_b v (d0 # d1 # d2 # d3 # rest) 4 =
     Inr (ucast (drop_bit 24 v) # ucast (drop_bit 16 v) # ucast (drop_bit 8 v) # ucast v # rest)"
proof -
  have ff: "(0xFF :: 32 word) = mask 8" by (simp add: mask_eq_exp_minus_1)
  have m: "ucast (w AND 0xFF) = (ucast w :: byte)" for w :: "32 word"
    unfolding ff by (rule bit_word_eqI) (auto simp: bit_simps)
  show ?thesis
  unfolding ultoa_b_def
  apply (subst ultoa_b_loop.simps, simp)
  apply (subst ultoa_b_loop.simps, simp)
  apply (subst ultoa_b_loop.simps, simp)
  apply (subst ultoa_b_loop.simps, simp)
  apply (subst ultoa_b_loop.simps, simp add: m)
  done
qed

lemma pack_add_eq_or:
  fixes c0 c1 c2 c3 :: byte
  shows "push_bit 24 (ucast c0) + push_bit 16 (ucast c1) + push_bit 8 (ucast c2) + ucast c3 =
         (push_bit 24 (ucast c0) OR push_bit 16 (ucast c1) OR push_bit 8 (ucast c2) OR ucast c3 :: 32 word)"
proof -
  let ?a = "push_bit 24 (ucast c0) :: 32 word"
  let ?b = "push_bit 16 (ucast c1) :: 32 word"
  let ?c = "push_bit 8 (ucast c2) :: 32 word"
  let ?d = "ucast c3 :: 32 word"
  have 1: "?a + ?b = ?a OR ?b"
    by (rule disjunctive_add) (auto simp: bit_simps dest: bit_imp_le_length)
  have 2: "(?a OR ?b) + ?c = (?a OR ?b) OR ?c"
    by (rule disjunctive_add) (auto simp: bit_simps dest: bit_imp_le_length)
  have 3: "((?a OR ?b) OR ?c) + ?d = ((?a OR ?b) OR ?c) OR ?d"
    by (rule disjunctive_add) (auto simp: bit_simps dest: bit_imp_le_length)
  show ?thesis unfolding 1 2 3 by (simp only: or.assoc)
qed

lemma unpack:
  fixes c0 c1 c2 c3 :: byte
  defines "w \<equiv> (push_bit 24 (ucast c0) OR push_bit 16 (ucast c1) OR push_bit 8 (ucast c2) OR ucast c3 :: 32 word)"
  shows "ucast (drop_bit 24 w) = c0" "ucast (drop_bit 16 w) = c1" "ucast (drop_bit 8 w) = c2" "ucast w = c3"
  unfolding w_def
  by (rule bit_word_eqI; auto simp: bit_simps dest: bit_imp_le_length)+

lemma strtoul_b_4_or:
  "strtoul_b (c0 # c1 # c2 # c3 # rest) 4 base =
     Inr (push_bit 24 (ucast c0) OR push_bit 16 (ucast c1) OR push_bit 8 (ucast c2) OR ucast c3)"
  by (simp only: strtoul_b_4 pack_add_eq_or)

lemma strncpy_bytes_total:
  "n \<le> length src \<Longrightarrow> \<exists>w. strncpy_bytes src n = Inr w \<and> length w = n"
proof (induction src n rule: strncpy_bytes.induct)
  case (1 src)
  then show ?case by simp
next
  case (2 n)
  then show ?case by simp
next
  case (3 c cs n)
  then show ?case by (cases "c = 0") auto
qed

lemma strncpy_bytes_4:
  "strncpy_bytes src 4 = strncpy_bytes src (Suc (Suc (Suc (Suc 0))))"
  by (simp add: numeral_eq_Suc)

lemma replicate_5: "replicate 5 x = [x, x, x, x, x]"
  by (simp add: numeral_eq_Suc)

section \<open>Key codec: claims\<close>

text \<open>
  C3. Round trip of the key codec: for every key of four characters \<open>c0 c1 c2 c3\<close>,
  whatever follows them in the buffer and whatever \<open>base\<close> is, \<open>strtoul_b\<close> with size
  4 returns a word, and \<open>ultoa_b\<close> with size 4 applied to that word writes the same
  four characters into the first four bytes of its buffer. The statement holds for
  all byte values, so in particular for ASCII characters.
\<close>

theorem key_codec_roundtrip:
  "\<exists>v. strtoul_b (c0 # c1 # c2 # c3 # rest) 4 base = Inr v \<and>
       ultoa_b v (d0 # d1 # d2 # d3 # dtail) 4 = Inr (c0 # c1 # c2 # c3 # dtail)"
proof -
  let ?v = "push_bit 24 (ucast c0) OR push_bit 16 (ucast c1) OR push_bit 8 (ucast c2) OR ucast c3 :: 32 word"
  have "strtoul_b (c0 # c1 # c2 # c3 # rest) 4 base = Inr ?v"
    by (rule strtoul_b_4_or)
  moreover have "ultoa_b ?v (d0 # d1 # d2 # d3 # dtail) 4 = Inr (c0 # c1 # c2 # c3 # dtail)"
    by (simp only: ultoa_b_4 unpack)
  ultimately show ?thesis by blast
qed

text \<open>
  C8. Big-endian packing: the word \<open>strtoul_b\<close> returns for a four-character key has
  character 0 in its bits 31 to 24, character 1 in bits 23 to 16, character 2 in bits
  15 to 8 and character 3 in bits 7 to 0; for \<open>"TC0P"\<close> it is
  \<open>('T' << 24) | ('C' << 16) | ('0' << 8) | 'P'\<close>, which is \<open>0x54433050\<close>.
\<close>

theorem strtoul_b_big_endian:
  "(\<exists>v. strtoul_b (c0 # c1 # c2 # c3 # rest) 4 base = Inr v \<and>
        v = (push_bit 24 (ucast c0) OR push_bit 16 (ucast c1) OR push_bit 8 (ucast c2) OR ucast c3) \<and>
        ucast (drop_bit 24 v) = c0 \<and> ucast (drop_bit 16 v) = c1 \<and>
        ucast (drop_bit 8 v) = c2 \<and> ucast v = c3) \<and>
   strtoul_b (c_lit ''TC0P'') 4 16 =
     Inr (push_bit 24 (of_char CHR ''T'') OR push_bit 16 (of_char CHR ''C'') OR
          push_bit 8 (of_char CHR ''0'') OR of_char CHR ''P'') \<and>
   strtoul_b (c_lit ''TC0P'') 4 16 = Inr 0x54433050"
proof -
  let ?v = "push_bit 24 (ucast c0) OR push_bit 16 (ucast c1) OR push_bit 8 (ucast c2) OR ucast c3 :: 32 word"
  have "strtoul_b (c0 # c1 # c2 # c3 # rest) 4 base = Inr ?v"
    by (rule strtoul_b_4_or)
  moreover have "ucast (drop_bit 24 ?v) = c0" "ucast (drop_bit 16 ?v) = c1"
    "ucast (drop_bit 8 ?v) = c2" "ucast ?v = c3"
    by (rule unpack)+
  ultimately have general: "\<exists>v. strtoul_b (c0 # c1 # c2 # c3 # rest) 4 base = Inr v \<and> v = ?v \<and>
        ucast (drop_bit 24 v) = c0 \<and> ucast (drop_bit 16 v) = c1 \<and>
        ucast (drop_bit 8 v) = c2 \<and> ucast v = c3"
    by blast
  have example: "strtoul_b (c_lit ''TC0P'') 4 16 = Inr 0x54433050"
    by (simp add: strtoul_b_4_or c_lit_def)
  have shifts: "(push_bit 24 (of_char CHR ''T'') OR push_bit 16 (of_char CHR ''C'') OR
          push_bit 8 (of_char CHR ''0'') OR of_char CHR ''P'' :: 32 word) = 0x54433050"
    by simp
  show ?thesis using general example shifts by simp
qed

text \<open>
  C10. The claim is that a key shorter than four characters is encoded without any
  out-of-range access, as if padded with NUL. For the key \<open>"AB"\<close>, a buffer of three
  bytes, \<open>strtoul_b\<close> with size 4 reads \<open>str[3]\<close>, past the end of the buffer, while
  the \<open>strncpy\<close> of line 66 on the same key stops at the terminator and pads with
  NUL.
\<close>

theorem strtoul_b_short_key_out_of_bounds:
  "strtoul_b (c_lit ''AB'') 4 16 = Inl OutOfBounds \<and>
   strncpy (replicate 5 0) (c_lit ''AB'') 4 = Inr [0x41, 0x42, 0, 0, 0]"
  by (simp add: strtoul_b_short c_lit_def strncpy_def strncpy_bytes_4 replicate_5)

section \<open>Value decoder: claims\<close>

lemma strcmp_terminated:
  "0 \<notin> set s \<Longrightarrow> (strcmp dt (s @ [0]) = 0) = (c_string dt = s)"
proof (induction s arbitrary: dt)
  case Nil
  then show ?case by (cases dt) (auto simp: c_string_def uint_0_iff)
next
  case (Cons y ys)
  then show ?case by (cases dt) (auto simp: c_string_def uint_0_iff word_uint_eq_iff [symmetric])
qed

lemma c_string_terminated:
  "0 \<notin> set s \<Longrightarrow> c_string (s @ [0]) = s"
  by (induction s) (auto simp: c_string_def)

lemma strcmp_c_string:
  "0 \<notin> set s \<Longrightarrow> (strcmp dt (s @ [0]) = 0) = (c_string dt = c_string (s @ [0]))"
  by (simp add: strcmp_terminated c_string_terminated)

lemma strcmp_literals:
  "(strcmp dt (c_lit ''sp78'') = 0) = (c_string dt = c_string (c_lit ''sp78''))"
  "(strcmp dt (c_lit ''fpe2'') = 0) = (c_string dt = c_string (c_lit ''fpe2''))"
  "(strcmp dt (c_lit ''flt '') = 0) = (c_string dt = c_string (c_lit ''flt ''))"
  "(strcmp dt (c_lit ''ui8 '') = 0) = (c_string dt = c_string (c_lit ''ui8 ''))"
  "(strcmp dt (c_lit ''ui16'') = 0) = (c_string dt = c_string (c_lit ''ui16''))"
  "(strcmp dt (c_lit ''ui32'') = 0) = (c_string dt = c_string (c_lit ''ui32''))"
  unfolding c_lit_def by (rule strcmp_c_string, simp)+

lemma strcmp_same [simp]: "strcmp (c_lit s) (c_lit s) = 0"
  unfolding c_lit_def by (induction s) auto

lemma sint16: "sint (w :: 16 word) = (if uint w < 32768 then uint w else uint w - 65536)"
proof -
  have b: "0 \<le> uint w" "uint w < 65536" using uint_lt2p [of w] by simp_all
  have "sint w = take_bit 16 (uint w + 32768) - 32768"
    by (simp add: sint_uint signed_take_bit_eq_take_bit_shift)
  also have "\<dots> = (uint w + 32768) mod 65536 - 32768"
    by (simp add: take_bit_eq_mod)
  also have "\<dots> = (if uint w < 32768 then uint w else uint w - 65536)"
  proof (cases "uint w < 32768")
    case True
    with b show ?thesis by (simp add: mod_pos_pos_trivial)
  next
    case False
    have e: "uint w + 32768 = (uint w - 32768) + 65536" by simp
    have "(uint w + 32768) mod 65536 = (uint w - 32768) mod 65536"
      by (subst e) (rule mod_add_self2)
    also have "\<dots> = uint w - 32768" using b False by (simp add: mod_pos_pos_trivial)
    finally show ?thesis using False by simp
  qed
  finally show ?thesis .
qed

lemma cat16: "uint (word_cat (a :: byte) (b::byte) :: 16 word) = 256 * uint a + uint b"
proof -
  have b: "0 \<le> uint a" "uint a < 256" "0 \<le> uint b" "uint b < 256"
    using uint_lt2p [of a] uint_lt2p [of b] by simp_all
  have "uint (word_cat a b :: 16 word) = (uint a * 256 mod 65536 + uint b) mod 65536"
    by (simp add: word_cat_eq push_bit_eq_mult uint_word_ariths uint_up_ucast is_up)
  also have "\<dots> = 256 * uint a + uint b"
    using b by (simp add: mod_pos_pos_trivial)
  finally show ?thesis .
qed

lemma cat16_eq:
  fixes b0 b1 :: byte
  shows "(ucast (push_bit 8 (ucast b0 :: 32 word) OR ucast b1) :: 16 word) = word_cat b0 b1"
  by (rule bit_word_eqI) (auto simp: bit_simps dest: bit_imp_le_length)

lemma sint32: "sint (w :: 32 word) = (if uint w < 2147483648 then uint w else uint w - 4294967296)"
proof -
  have b: "0 \<le> uint w" "uint w < 4294967296" using uint_lt2p [of w] by simp_all
  have "sint w = take_bit 32 (uint w + 2147483648) - 2147483648"
    by (simp add: sint_uint signed_take_bit_eq_take_bit_shift)
  also have "\<dots> = (uint w + 2147483648) mod 4294967296 - 2147483648"
    by (simp add: take_bit_eq_mod)
  also have "\<dots> = (if uint w < 2147483648 then uint w else uint w - 4294967296)"
  proof (cases "uint w < 2147483648")
    case True
    with b show ?thesis by (simp add: mod_pos_pos_trivial)
  next
    case False
    have e: "uint w + 2147483648 = (uint w - 2147483648) + 4294967296" by simp
    have "(uint w + 2147483648) mod 4294967296 = (uint w - 2147483648) mod 4294967296"
      by (subst e) (rule mod_add_self2)
    also have "\<dots> = uint w - 2147483648" using b False by (simp add: mod_pos_pos_trivial)
    finally show ?thesis using False by simp
  qed
  finally show ?thesis .
qed

lemma be32_uint:
  fixes b0 b1 b2 b3 :: byte
  shows "uint (push_bit 24 (ucast b0) OR push_bit 16 (ucast b1) OR push_bit 8 (ucast b2) OR ucast b3 :: 32 word)
     = 16777216 * uint b0 + 65536 * uint b1 + 256 * uint b2 + uint b3"
proof -
  have b: "0 \<le> uint b0" "uint b0 < 256" "0 \<le> uint b1" "uint b1 < 256"
     "0 \<le> uint b2" "uint b2 < 256" "0 \<le> uint b3" "uint b3 < 256"
    using uint_lt2p [of b0] uint_lt2p [of b1] uint_lt2p [of b2] uint_lt2p [of b3] by simp_all
  have "uint (push_bit 24 (ucast b0) + push_bit 16 (ucast b1) + push_bit 8 (ucast b2) + ucast b3 :: 32 word)
     = (16777216 * uint b0 + 65536 * uint b1 + 256 * uint b2 + uint b3) mod 4294967296"
    by (simp add: push_bit_eq_mult uint_word_ariths uint_up_ucast is_up mod_simps mult.commute)
  also have "\<dots> = 16777216 * uint b0 + 65536 * uint b1 + 256 * uint b2 + uint b3"
    using b by (simp add: mod_pos_pos_trivial)
  finally show ?thesis by (simp only: pack_add_eq_or)
qed

lemma convertValue_ui32_value:
  "convertValue \<lparr>val_key = k, val_dataSize = 4, val_dataType = c_lit ''ui32'',
                  val_bytes = b0 # b1 # b2 # b3 # rest\<rparr> =
     Finite (of_int
       (if 16777216 * uint b0 + 65536 * uint b1 + 256 * uint b2 + uint b3 < 2147483648
        then 16777216 * uint b0 + 65536 * uint b1 + 256 * uint b2 + uint b3
        else 16777216 * uint b0 + 65536 * uint b1 + 256 * uint b2 + uint b3 - 4294967296))"
proof -
  have "convertValue \<lparr>val_key = k, val_dataSize = 4, val_dataType = c_lit ''ui32'',
                  val_bytes = b0 # b1 # b2 # b3 # rest\<rparr> =
     Finite (of_int (sint (push_bit 24 (ucast b0) OR push_bit 16 (ucast b1) OR
                           push_bit 8 (ucast b2) OR ucast b3 :: 32 word)))"
    by (simp add: convertValue_def c_lit_def)
  then show ?thesis by (simp only: sint32 be32_uint)
qed

lemma convertValue_table_examples:
  "convertValue \<lparr>val_key = k, val_dataSize = 2, val_dataType = c_lit ''fpe2'',
                  val_bytes = 0x00 # 0x04 # rest\<rparr> = Finite 1"
  "convertValue \<lparr>val_key = k, val_dataSize = 4, val_dataType = c_lit ''flt '',
                  val_bytes = 0x3F # 0x80 # 0x00 # 0x00 # rest\<rparr> = Finite 1"
  "convertValue \<lparr>val_key = k, val_dataSize = 2, val_dataType = c_lit ''ui16'',
                  val_bytes = 0xFF # 0xFF # rest\<rparr> = Finite 65535"
  by (simp_all add: convertValue_def c_lit_def float_bits_to_double_def)

text \<open>
  C2. For the tag \<open>sp78\<close> with declared size 2, the decoder returns the first two
  payload bytes, read as a signed 16-bit big-endian two's-complement integer, divided
  by 256: with \<open>u = 256 * b0 + b1\<close>, that integer is \<open>u\<close> below \<open>32768\<close> and
  \<open>u - 65536\<close> from there on. Bytes \<open>01 00\<close> decode to 1.0 and \<open>FF 00\<close> to -1.0.
\<close>

theorem convertValue_sp78:
  "convertValue \<lparr>val_key = k, val_dataSize = 2, val_dataType = c_lit ''sp78'',
                  val_bytes = b0 # b1 # rest\<rparr> =
     Finite (of_int (if 256 * uint b0 + uint b1 < 32768 then 256 * uint b0 + uint b1
                     else 256 * uint b0 + uint b1 - 65536) / 256) \<and>
   convertValue \<lparr>val_key = k, val_dataSize = 2, val_dataType = c_lit ''sp78'',
                  val_bytes = 0x01 # 0x00 # rest\<rparr> = Finite 1 \<and>
   convertValue \<lparr>val_key = k, val_dataSize = 2, val_dataType = c_lit ''sp78'',
                  val_bytes = 0xFF # 0x00 # rest\<rparr> = Finite (- 1)"
proof -
  have e: "sint (ucast (push_bit 8 (ucast b0 :: 32 word) OR ucast b1) :: 16 word) =
      (if 256 * uint b0 + uint b1 < 32768 then 256 * uint b0 + uint b1
       else 256 * uint b0 + uint b1 - 65536)"
    by (simp only: cat16_eq sint16 cat16)
  have "convertValue \<lparr>val_key = k, val_dataSize = 2, val_dataType = c_lit ''sp78'',
                  val_bytes = b0 # b1 # rest\<rparr> =
     Finite (of_int (sint (ucast (push_bit 8 (ucast b0 :: 32 word) OR ucast b1) :: 16 word)) / 256)"
    by (simp add: convertValue_def)
  then have "convertValue \<lparr>val_key = k, val_dataSize = 2, val_dataType = c_lit ''sp78'',
                  val_bytes = b0 # b1 # rest\<rparr> =
     Finite (of_int (if 256 * uint b0 + uint b1 < 32768 then 256 * uint b0 + uint b1
                     else 256 * uint b0 + uint b1 - 65536) / 256)"
    by (simp only: e)
  moreover have "convertValue \<lparr>val_key = k, val_dataSize = 2, val_dataType = c_lit ''sp78'',
                  val_bytes = 0x01 # 0x00 # rest\<rparr> = Finite 1"
    by (simp add: convertValue_def)
  moreover have "convertValue \<lparr>val_key = k, val_dataSize = 2, val_dataType = c_lit ''sp78'',
                  val_bytes = 0xFF # 0x00 # rest\<rparr> = Finite (- 1)"
    by (simp add: convertValue_def)
  ultimately show ?thesis by blast
qed

text \<open>
  C1. The claim is that the tag \<open>ui32\<close> with declared size 4 decodes to the unsigned
  32-bit big-endian value of the first four bytes, never negative. Line 123 converts
  an \<open>int\<close> expression to \<open>double\<close>, so the payload \<open>80 00 00 00\<close> decodes to
  \<open>-2147483648\<close> and not to \<open>2147483648\<close>; the payload \<open>00 00 01 00\<close> decodes to 256.
\<close>

theorem convertValue_ui32_sign_bit:
  "convertValue \<lparr>val_key = k, val_dataSize = 4, val_dataType = c_lit ''ui32'',
                  val_bytes = 0x80 # 0x00 # 0x00 # 0x00 # rest\<rparr> = Finite (- 2147483648) \<and>
   convertValue \<lparr>val_key = k, val_dataSize = 4, val_dataType = c_lit ''ui32'',
                  val_bytes = 0x00 # 0x00 # 0x01 # 0x00 # rest\<rparr> = Finite 256"
  by (simp add: convertValue_def c_lit_def)

text \<open>
  C9. For the tag \<open>ui8 \<close> with a declared size other than 0, the decoder returns the
  first payload byte as an unsigned number, at most 255; the result is the same for
  any other nonzero size, key and trailing bytes, and a payload that begins with
  \<open>2A\<close> decodes to 42.
\<close>

theorem convertValue_ui8:
  assumes "sz \<noteq> 0" and "sz' \<noteq> 0"
  shows "convertValue \<lparr>val_key = k, val_dataSize = sz, val_dataType = c_lit ''ui8 '',
                        val_bytes = b0 # rest\<rparr> = Finite (of_nat (unat b0)) \<and>
         unat b0 \<le> 255 \<and>
         convertValue \<lparr>val_key = k', val_dataSize = sz', val_dataType = c_lit ''ui8 '',
                        val_bytes = b0 # rest'\<rparr> =
         convertValue \<lparr>val_key = k, val_dataSize = sz, val_dataType = c_lit ''ui8 '',
                        val_bytes = b0 # rest\<rparr> \<and>
         convertValue \<lparr>val_key = k, val_dataSize = sz, val_dataType = c_lit ''ui8 '',
                        val_bytes = 0x2A # rest\<rparr> = Finite 42"
proof -
  have v: "convertValue \<lparr>val_key = a, val_dataSize = n, val_dataType = c_lit ''ui8 '',
                        val_bytes = b # r\<rparr> = Finite (of_nat (unat b))" if "n \<noteq> 0" for a n b r
    using that by (simp add: convertValue_def c_lit_def)
  have 1: "convertValue \<lparr>val_key = k, val_dataSize = sz, val_dataType = c_lit ''ui8 '',
                        val_bytes = b0 # rest\<rparr> = Finite (of_nat (unat b0))"
    by (rule v [OF assms(1)])
  have "unat b0 < 2 ^ LENGTH(8)" by (rule unsigned_less)
  then have 2: "unat b0 \<le> 255" by simp
  have 3: "convertValue \<lparr>val_key = k', val_dataSize = sz', val_dataType = c_lit ''ui8 '',
                        val_bytes = b0 # rest'\<rparr> =
         convertValue \<lparr>val_key = k, val_dataSize = sz, val_dataType = c_lit ''ui8 '',
                        val_bytes = b0 # rest\<rparr>"
    by (simp only: v [OF assms(1)] v [OF assms(2)])
  have 4: "convertValue \<lparr>val_key = k, val_dataSize = sz, val_dataType = c_lit ''ui8 '',
                        val_bytes = 0x2A # rest\<rparr> = Finite 42"
    using v [OF assms(1), of k "0x2A" rest] by simp
  show ?thesis by (intro conjI) (rule 1, rule 2, rule 3, rule 4)
qed

theorem convertValue_ui8_witness:
  "(1 :: 32 word) \<noteq> 0 \<and> (4 :: 32 word) \<noteq> 0 \<and>
   convertValue \<lparr>val_key = c_lit ''BNum'', val_dataSize = 1, val_dataType = c_lit ''ui8 '',
                  val_bytes = 0x2A # replicate 31 0\<rparr> = Finite 42 \<and>
   convertValue \<lparr>val_key = c_lit ''BCLM'', val_dataSize = 4, val_dataType = c_lit ''ui8 '',
                  val_bytes = 0x2A # replicate 31 0xFF\<rparr> = Finite 42"
  using convertValue_ui8 [of 1 4 "c_lit ''BNum''" "0x2A" "replicate 31 0" "c_lit ''BCLM''" "replicate 31 0xFF"]
  by simp

text \<open>
  C7. Decoder fallback: when the declared size is 0 the decoder returns 0.0, whatever
  the type tag and the payload; and when the pair of the tag (the string held by
  \<open>dataType\<close>) and the declared size matches none of the six rows of the table, it
  returns 0.0 as well. The decoder is a total function to \<open>double\<close>: it has no error
  result.
\<close>

theorem convertValue_fallback:
  "(val_dataSize val = 0 \<longrightarrow> convertValue val = Finite 0) \<and>
   (\<not> (c_string (val_dataType val) = c_string (c_lit ''sp78'') \<and> val_dataSize val = 2) \<and>
    \<not> (c_string (val_dataType val) = c_string (c_lit ''fpe2'') \<and> val_dataSize val = 2) \<and>
    \<not> (c_string (val_dataType val) = c_string (c_lit ''flt '') \<and> val_dataSize val = 4) \<and>
    c_string (val_dataType val) \<noteq> c_string (c_lit ''ui8 '') \<and>
    \<not> (c_string (val_dataType val) = c_string (c_lit ''ui16'') \<and> val_dataSize val = 2) \<and>
    \<not> (c_string (val_dataType val) = c_string (c_lit ''ui32'') \<and> val_dataSize val = 4)
    \<longrightarrow> convertValue val = Finite 0)"
  by (simp add: convertValue_def strcmp_literals)

theorem convertValue_fallback_witness:
  "val_dataSize \<lparr>val_key = c_lit ''BNum'', val_dataSize = 0, val_dataType = c_lit ''ui8 '',
       val_bytes = replicate 32 0x2A\<rparr> = 0 \<and>
   convertValue \<lparr>val_key = c_lit ''BNum'', val_dataSize = 0, val_dataType = c_lit ''ui8 '',
       val_bytes = replicate 32 0x2A\<rparr> = Finite 0 \<and>
   c_string (c_lit ''xyz '') \<noteq> c_string (c_lit ''ui8 '') \<and>
   convertValue \<lparr>val_key = c_lit ''TC0P'', val_dataSize = 2, val_dataType = c_lit ''xyz '',
       val_bytes = replicate 32 0x2A\<rparr> = Finite 0"
  using convertValue_fallback [of "\<lparr>val_key = c_lit ''BNum'', val_dataSize = 0,
          val_dataType = c_lit ''ui8 '', val_bytes = replicate 32 0x2A\<rparr>"]
    convertValue_fallback [of "\<lparr>val_key = c_lit ''TC0P'', val_dataSize = 2,
          val_dataType = c_lit ''xyz '', val_bytes = replicate 32 0x2A\<rparr>"]
  by (simp add: c_string_def c_lit_def)

section \<open>Controller transport and facade: claims\<close>

text \<open>
  What \<open>SMCReadKey2\<close> computes for a key whose first four bytes can be read, in terms
  of the two answers of the kernel.
\<close>

lemma SMCReadKey2_readable:
  assumes "strtoul_b key 4 16 = Inr encoded" and "strncpy (replicate 5 0) key 4 = Inr copied"
  shows "SMCReadKey2 io conn key k =
     (case io (world k) conn KERNEL_INDEX_SMC (keyinfo_request encoded) zero_SMCParamStruct of
        (r1, out1, w1) \<Rightarrow>
          if r1 \<noteq> kIOReturnSuccess then
            Inr (r1, zero_SMCVal_t\<lparr>val_key := copied\<rparr>,
                 \<lparr>world = w1, calls = calls k @ [(conn, KERNEL_INDEX_SMC, keyinfo_request encoded)]\<rparr>)
          else
            (case io w1 conn KERNEL_INDEX_SMC
                    (bytes_request encoded (keyInfo_dataSize (param_keyInfo out1))) out1 of
               (r2, out2, w2) \<Rightarrow>
                 Inr (r2,
                      \<lparr>val_key = copied, val_dataSize = keyInfo_dataSize (param_keyInfo out1),
                       val_dataType = type_tag (keyInfo_dataType (param_keyInfo out1)),
                       val_bytes = (if r2 \<noteq> kIOReturnSuccess then replicate 32 0 else param_bytes out2)\<rparr>,
                      \<lparr>world = w2,
                       calls = calls k @ [(conn, KERNEL_INDEX_SMC, keyinfo_request encoded),
                          (conn, KERNEL_INDEX_SMC,
                           bytes_request encoded (keyInfo_dataSize (param_keyInfo out1)))]\<rparr>)))"
  using assms
  by (auto simp: SMCReadKey2_def SMCCall_def Let_def zero_SMCVal_t_def zero_SMCParamStruct_def
      keyinfo_request_def bytes_request_def type_tag_def replicate_5 ultoa_b_4 kIOReturnSuccess_def
      split: prod.splits)

lemma SMCReadKey2_Inr_readable:
  assumes "SMCReadKey2 io conn key k = Inr x"
  shows "\<exists>encoded copied. strtoul_b key 4 16 = Inr encoded \<and>
            strncpy (replicate 5 0) key 4 = Inr copied"
  using assms
  by (auto simp: SMCReadKey2_def zero_SMCVal_t_def Let_def split: sum.splits)

lemma readable_key:
  assumes "4 \<le> length key"
  shows "\<exists>encoded copied. strtoul_b key 4 16 = Inr encoded \<and>
            strncpy (replicate 5 0) key 4 = Inr copied"
proof -
  obtain c0 c1 c2 c3 rest where k: "key = c0 # c1 # c2 # c3 # rest"
    using assms by (cases key; cases "tl key"; cases "tl (tl key)"; cases "tl (tl (tl key))"; simp)
  obtain w where "strncpy_bytes key 4 = Inr w"
    using strncpy_bytes_total [of 4 key] assms by auto
  then have "strncpy (replicate 5 0) key 4 = Inr (w @ drop 4 (replicate 5 0))"
    by (simp add: strncpy_def)
  with k show ?thesis by (simp add: strtoul_b_4)
qed

lemma TC0P_encoded: "strtoul_b (c_lit ''TC0P'') 4 16 = Inr 0x54433050"
  by (simp add: c_lit_def strtoul_b_4)

lemma TC0P_copied: "strncpy (replicate 5 0) (c_lit ''TC0P'') 4 = Inr (c_lit ''TC0P'')"
  by (simp add: c_lit_def strncpy_def strncpy_bytes_4 replicate_5)

lemmas stub_defs = controller_stub_def failing_stub_def keyinfo_request_def bytes_request_def
  zero_SMCParamStruct_def type_tag_def c_lit_def SMC_CMD_READ_KEYINFO_def SMC_CMD_READ_BYTES_def
  kIOReturnSuccess_def KERNEL_INDEX_SMC_def

text \<open>
  C4. Two-phase linkage: when \<open>SMCReadKey2\<close> returns success, it has issued exactly
  two calls, in this order and on the same connection and selector: the key-info
  request for the encoded key, answered with success, then the read-bytes request
  that carries the same encoded key, the command \<open>SMC_CMD_READ_BYTES\<close>, the declared
  size the first answer gave, and zero in every other field.
\<close>

theorem SMCReadKey2_two_phase:
  assumes "SMCReadKey2 io conn key k = Inr (kIOReturnSuccess, val, k')"
  shows "\<exists>encoded out1 w1 out2 w2.
     strtoul_b key 4 16 = Inr encoded \<and>
     io (world k) conn KERNEL_INDEX_SMC (keyinfo_request encoded) zero_SMCParamStruct =
       (kIOReturnSuccess, out1, w1) \<and>
     io w1 conn KERNEL_INDEX_SMC (bytes_request encoded (keyInfo_dataSize (param_keyInfo out1))) out1 =
       (kIOReturnSuccess, out2, w2) \<and>
     calls k' = calls k @
       [(conn, KERNEL_INDEX_SMC, keyinfo_request encoded),
        (conn, KERNEL_INDEX_SMC, bytes_request encoded (keyInfo_dataSize (param_keyInfo out1)))] \<and>
     world k' = w2 \<and>
     val_dataSize val = keyInfo_dataSize (param_keyInfo out1)"
proof -
  obtain encoded copied where r: "strtoul_b key 4 16 = Inr encoded"
      "strncpy (replicate 5 0) key 4 = Inr copied"
    using SMCReadKey2_Inr_readable [OF assms] by blast
  obtain r1 out1 w1 where c1:
    "io (world k) conn KERNEL_INDEX_SMC (keyinfo_request encoded) zero_SMCParamStruct = (r1, out1, w1)"
    by (cases "io (world k) conn KERNEL_INDEX_SMC (keyinfo_request encoded) zero_SMCParamStruct")
  obtain r2 out2 w2 where c2:
    "io w1 conn KERNEL_INDEX_SMC (bytes_request encoded (keyInfo_dataSize (param_keyInfo out1))) out1 =
       (r2, out2, w2)"
    by (cases "io w1 conn KERNEL_INDEX_SMC (bytes_request encoded (keyInfo_dataSize (param_keyInfo out1))) out1")
  from assms have s1: "r1 = kIOReturnSuccess"
    unfolding SMCReadKey2_readable [OF r] c1 by (auto split: if_splits)
  from assms s1 have s2: "r2 = kIOReturnSuccess"
    unfolding SMCReadKey2_readable [OF r] c1 by (simp add: c2 split: if_splits)
  from assms s1 s2 have "calls k' = calls k @
       [(conn, KERNEL_INDEX_SMC, keyinfo_request encoded),
        (conn, KERNEL_INDEX_SMC, bytes_request encoded (keyInfo_dataSize (param_keyInfo out1)))]"
    "world k' = w2" "val_dataSize val = keyInfo_dataSize (param_keyInfo out1)"
    unfolding SMCReadKey2_readable [OF r] c1 by (auto simp: c2)
  with r c1 c2 s1 s2 show ?thesis by blast
qed

theorem SMCReadKey2_two_phase_witness:
  "SMCReadKey2 controller_stub 7 (c_lit ''TC0P'') \<lparr>world = 0, calls = []\<rparr> =
     Inr (kIOReturnSuccess,
          \<lparr>val_key = c_lit ''TC0P'', val_dataSize = 2, val_dataType = c_lit ''sp78'',
           val_bytes = [0x1A, 0x80] @ replicate 30 0\<rparr>,
          \<lparr>world = 2,
           calls = [(7, KERNEL_INDEX_SMC, keyinfo_request 0x54433050),
                    (7, KERNEL_INDEX_SMC, bytes_request 0x54433050 2)]\<rparr>) \<and>
   (\<exists>out1 w1 out2 w2.
      controller_stub 0 7 KERNEL_INDEX_SMC (keyinfo_request 0x54433050) zero_SMCParamStruct =
        (kIOReturnSuccess, out1, w1) \<and>
      controller_stub w1 7 KERNEL_INDEX_SMC
          (bytes_request 0x54433050 (keyInfo_dataSize (param_keyInfo out1))) out1 =
        (kIOReturnSuccess, out2, w2) \<and>
      keyInfo_dataSize (param_keyInfo out1) = 2 \<and> w2 = 2)"
proof -
  have h: "SMCReadKey2 controller_stub 7 (c_lit ''TC0P'') \<lparr>world = 0, calls = []\<rparr> =
     Inr (kIOReturnSuccess,
          \<lparr>val_key = c_lit ''TC0P'', val_dataSize = 2, val_dataType = c_lit ''sp78'',
           val_bytes = [0x1A, 0x80] @ replicate 30 0\<rparr>,
          \<lparr>world = 2,
           calls = [(7, KERNEL_INDEX_SMC, keyinfo_request 0x54433050),
                    (7, KERNEL_INDEX_SMC, bytes_request 0x54433050 2)]\<rparr>)"
    unfolding SMCReadKey2_readable [OF TC0P_encoded TC0P_copied]
    by (simp add: stub_defs)
  show ?thesis
    using SMCReadKey2_two_phase [OF h] h by (auto simp: TC0P_encoded)
qed

text \<open>
  C5. Status returned verbatim, no retry: for a key that can be encoded, if the
  key-info call answers with a status other than success, \<open>SMCReadKey2\<close> returns that
  status and has issued that one call only; if it answers with success and the
  read-bytes call answers with a status other than success, \<open>SMCReadKey2\<close> returns
  that second status and has issued these two calls only.
\<close>

theorem SMCReadKey2_status_verbatim:
  assumes "strtoul_b key 4 16 = Inr encoded"
    and "io (world k) conn KERNEL_INDEX_SMC (keyinfo_request encoded) zero_SMCParamStruct =
           (r1, out1, w1)"
    and "io w1 conn KERNEL_INDEX_SMC
            (bytes_request encoded (keyInfo_dataSize (param_keyInfo out1))) out1 = (r2, out2, w2)"
  shows "(r1 \<noteq> kIOReturnSuccess \<longrightarrow>
            (\<exists>val. SMCReadKey2 io conn key k =
               Inr (r1, val,
                    \<lparr>world = w1,
                     calls = calls k @ [(conn, KERNEL_INDEX_SMC, keyinfo_request encoded)]\<rparr>))) \<and>
         (r1 = kIOReturnSuccess \<and> r2 \<noteq> kIOReturnSuccess \<longrightarrow>
            (\<exists>val. SMCReadKey2 io conn key k =
               Inr (r2, val,
                    \<lparr>world = w2,
                     calls = calls k @
                       [(conn, KERNEL_INDEX_SMC, keyinfo_request encoded),
                        (conn, KERNEL_INDEX_SMC,
                         bytes_request encoded (keyInfo_dataSize (param_keyInfo out1)))]\<rparr>)))"
proof -
  have "4 \<le> length key" using assms(1) by (rule strtoul_b_Inr_length)
  then obtain copied where c: "strncpy (replicate 5 0) key 4 = Inr copied"
    using readable_key by blast
  show ?thesis
    unfolding SMCReadKey2_readable [OF assms(1) c] assms(2)
    by (simp add: assms(3))
qed

theorem SMCReadKey2_status_verbatim_witness:
  "(0xE00002BC :: 32 word) \<noteq> kIOReturnSuccess \<and>
   (\<exists>val. SMCReadKey2 (failing_stub 0 0xE00002BC) 7 (c_lit ''TC0P'') \<lparr>world = 0, calls = []\<rparr> =
      Inr (0xE00002BC, val,
           \<lparr>world = 1, calls = [(7, KERNEL_INDEX_SMC, keyinfo_request 0x54433050)]\<rparr>)) \<and>
   (0xE00002C1 :: 32 word) \<noteq> kIOReturnSuccess \<and>
   (\<exists>val. SMCReadKey2 (failing_stub 1 0xE00002C1) 7 (c_lit ''TC0P'') \<lparr>world = 0, calls = []\<rparr> =
      Inr (0xE00002C1, val,
           \<lparr>world = 2,
            calls = [(7, KERNEL_INDEX_SMC, keyinfo_request 0x54433050),
                     (7, KERNEL_INDEX_SMC, bytes_request 0x54433050 2)]\<rparr>))"
proof -
  let ?k = "\<lparr>world = 0 :: nat, calls = []\<rparr>"
  have a1: "failing_stub 0 0xE00002BC (world ?k) 7 KERNEL_INDEX_SMC (keyinfo_request 0x54433050)
      zero_SMCParamStruct = (0xE00002BC, zero_SMCParamStruct, 1)"
    by (simp add: failing_stub_def)
  have a2: "failing_stub 0 0xE00002BC 1 7 KERNEL_INDEX_SMC
      (bytes_request 0x54433050 (keyInfo_dataSize (param_keyInfo zero_SMCParamStruct)))
      zero_SMCParamStruct =
      controller_stub 1 7 KERNEL_INDEX_SMC
      (bytes_request 0x54433050 (keyInfo_dataSize (param_keyInfo zero_SMCParamStruct)))
      zero_SMCParamStruct"
    by (simp add: failing_stub_def)
  obtain r2 out2 w2 where a2': "failing_stub 0 0xE00002BC 1 7 KERNEL_INDEX_SMC
      (bytes_request 0x54433050 (keyInfo_dataSize (param_keyInfo zero_SMCParamStruct)))
      zero_SMCParamStruct = (r2, out2, w2)"
    using prod_cases3 by blast
  let ?out1 = "zero_SMCParamStruct\<lparr>param_keyInfo :=
           \<lparr>keyInfo_dataSize = 2, keyInfo_dataType = 0x73703738, keyInfo_dataAttributes = 0\<rparr>\<rparr>"
  have b1: "failing_stub 1 0xE00002C1 (world ?k) 7 KERNEL_INDEX_SMC (keyinfo_request 0x54433050)
      zero_SMCParamStruct = (kIOReturnSuccess, ?out1, 1)"
    by (simp add: failing_stub_def controller_stub_def keyinfo_request_def)
  have b2: "failing_stub 1 0xE00002C1 1 7 KERNEL_INDEX_SMC
      (bytes_request 0x54433050 (keyInfo_dataSize (param_keyInfo ?out1))) ?out1 =
      (0xE00002C1, ?out1, 2)"
    by (simp add: failing_stub_def)
  show ?thesis
    using SMCReadKey2_status_verbatim
        [where io = "failing_stub 0 0xE00002BC" and k = ?k, OF TC0P_encoded a1 a2']
      SMCReadKey2_status_verbatim
        [where io = "failing_stub 1 0xE00002C1" and k = ?k, OF TC0P_encoded b1 b2]
    by (simp add: kIOReturnSuccess_def)
qed

text \<open>
  C6. No partial success at the facade: for a key of at least four bytes,
  \<open>SMCReadKey\<close> returns a status and the content of \<open>*value\<close>. If the key-info call
  answers with a status other than success, \<open>SMCReadKey\<close> returns that very status,
  \<open>*value\<close> is what it was before the call, and only that one call was issued. If the
  key-info call succeeds and the read-bytes call answers with a status other than
  success, \<open>SMCReadKey\<close> returns that second status, \<open>*value\<close> is unchanged, and the
  two calls were issued. If both calls answer with success, \<open>SMCReadKey\<close> returns
  success and \<open>*value\<close> is \<open>convertValue\<close> of the record \<open>SMCReadKey2\<close> returned: the
  declared size and type tag of the first answer and the payload of the second. So
  \<open>*value\<close> is written only when both phases succeed.
\<close>

theorem SMCReadKey_no_partial_success:
  assumes "4 \<le> length key"
  shows "\<exists>encoded r1 out1 w1 r2 out2 w2 result value' k'.
      strtoul_b key 4 16 = Inr encoded \<and>
      io (world k) conn KERNEL_INDEX_SMC (keyinfo_request encoded) zero_SMCParamStruct =
        (r1, out1, w1) \<and>
      io w1 conn KERNEL_INDEX_SMC
          (bytes_request encoded (keyInfo_dataSize (param_keyInfo out1))) out1 =
        (r2, out2, w2) \<and>
      SMCReadKey io conn key value k = Inr (result, value', k') \<and>
      (r1 \<noteq> kIOReturnSuccess \<longrightarrow>
         result = r1 \<and> value' = value \<and>
         k' = \<lparr>world = w1,
               calls = calls k @ [(conn, KERNEL_INDEX_SMC, keyinfo_request encoded)]\<rparr>) \<and>
      (r1 = kIOReturnSuccess \<and> r2 \<noteq> kIOReturnSuccess \<longrightarrow>
         result = r2 \<and> value' = value \<and>
         k' = \<lparr>world = w2,
               calls = calls k @
                 [(conn, KERNEL_INDEX_SMC, keyinfo_request encoded),
                  (conn, KERNEL_INDEX_SMC,
                   bytes_request encoded (keyInfo_dataSize (param_keyInfo out1)))]\<rparr>) \<and>
      (r1 = kIOReturnSuccess \<and> r2 = kIOReturnSuccess \<longrightarrow>
         result = kIOReturnSuccess \<and>
         k' = \<lparr>world = w2,
               calls = calls k @
                 [(conn, KERNEL_INDEX_SMC, keyinfo_request encoded),
                  (conn, KERNEL_INDEX_SMC,
                   bytes_request encoded (keyInfo_dataSize (param_keyInfo out1)))]\<rparr> \<and>
         (\<exists>copied.
            SMCReadKey2 io conn key k =
              Inr (kIOReturnSuccess,
                   \<lparr>val_key = copied, val_dataSize = keyInfo_dataSize (param_keyInfo out1),
                    val_dataType = type_tag (keyInfo_dataType (param_keyInfo out1)),
                    val_bytes = param_bytes out2\<rparr>, k') \<and>
            value' =
              convertValue
                \<lparr>val_key = copied, val_dataSize = keyInfo_dataSize (param_keyInfo out1),
                 val_dataType = type_tag (keyInfo_dataType (param_keyInfo out1)),
                 val_bytes = param_bytes out2\<rparr>)) \<and>
      (result \<noteq> kIOReturnSuccess \<longrightarrow> value' = value) \<and>
      (result = kIOReturnSuccess \<longrightarrow> r1 = kIOReturnSuccess \<and> r2 = kIOReturnSuccess)"
proof -
  obtain encoded copied where r: "strtoul_b key 4 16 = Inr encoded"
      "strncpy (replicate 5 0) key 4 = Inr copied"
    using readable_key [OF assms] by blast
  obtain r1 out1 w1 where c1:
    "io (world k) conn KERNEL_INDEX_SMC (keyinfo_request encoded) zero_SMCParamStruct = (r1, out1, w1)"
    by (cases "io (world k) conn KERNEL_INDEX_SMC (keyinfo_request encoded) zero_SMCParamStruct")
  obtain r2 out2 w2 where c2:
    "io w1 conn KERNEL_INDEX_SMC (bytes_request encoded (keyInfo_dataSize (param_keyInfo out1))) out1 =
       (r2, out2, w2)"
    by (cases "io w1 conn KERNEL_INDEX_SMC (bytes_request encoded (keyInfo_dataSize (param_keyInfo out1))) out1")
  let ?k1 = "\<lparr>world = w1,
               calls = calls k @ [(conn, KERNEL_INDEX_SMC, keyinfo_request encoded)]\<rparr>"
  let ?k2 = "\<lparr>world = w2,
               calls = calls k @
                 [(conn, KERNEL_INDEX_SMC, keyinfo_request encoded),
                  (conn, KERNEL_INDEX_SMC,
                   bytes_request encoded (keyInfo_dataSize (param_keyInfo out1)))]\<rparr>"
  let ?val = "\<lparr>val_key = copied, val_dataSize = keyInfo_dataSize (param_keyInfo out1),
                val_dataType = type_tag (keyInfo_dataType (param_keyInfo out1)),
                val_bytes = param_bytes out2\<rparr>"
  show ?thesis
  proof (cases "r1 = kIOReturnSuccess")
    case f1: False
    have b: "SMCReadKey io conn key value k = Inr (r1, value, ?k1)"
      unfolding SMCReadKey_def SMCReadKey2_readable [OF r] c1 using f1 by simp
    from r(1) c1 c2 b f1 show ?thesis by blast
  next
    case s1: True
    show ?thesis
    proof (cases "r2 = kIOReturnSuccess")
      case f2: False
      have b: "SMCReadKey io conn key value k = Inr (r2, value, ?k2)"
        unfolding SMCReadKey_def SMCReadKey2_readable [OF r] c1 using s1 f2 by (simp add: c2)
      from r(1) c1 c2 b s1 f2 show ?thesis by blast
    next
      case s2: True
      have a: "SMCReadKey2 io conn key k = Inr (kIOReturnSuccess, ?val, ?k2)"
        unfolding SMCReadKey2_readable [OF r] c1 using s1 s2 by (simp add: c2)
      have b: "SMCReadKey io conn key value k = Inr (kIOReturnSuccess, convertValue ?val, ?k2)"
        unfolding SMCReadKey_def a by simp
      from r(1) c1 c2 a b s1 s2 show ?thesis by blast
    qed
  qed
qed

theorem SMCReadKey_no_partial_success_witness:
  "4 \<le> length (c_lit ''TC0P'') \<and>
   SMCReadKey controller_stub 7 (c_lit ''TC0P'') (Finite 99) \<lparr>world = 0, calls = []\<rparr> =
     Inr (kIOReturnSuccess, Finite (53 / 2),
          \<lparr>world = 2,
           calls = [(7, KERNEL_INDEX_SMC, keyinfo_request 0x54433050),
                    (7, KERNEL_INDEX_SMC, bytes_request 0x54433050 2)]\<rparr>) \<and>
   SMCReadKey (failing_stub 0 0xE00002BC) 7 (c_lit ''TC0P'') (Finite 99) \<lparr>world = 0, calls = []\<rparr> =
     Inr (0xE00002BC, Finite 99,
          \<lparr>world = 1,
           calls = [(7, KERNEL_INDEX_SMC, keyinfo_request 0x54433050)]\<rparr>) \<and>
   SMCReadKey (failing_stub 1 0xE00002C1) 7 (c_lit ''TC0P'') (Finite 99) \<lparr>world = 0, calls = []\<rparr> =
     Inr (0xE00002C1, Finite 99,
          \<lparr>world = 2,
           calls = [(7, KERNEL_INDEX_SMC, keyinfo_request 0x54433050),
                    (7, KERNEL_INDEX_SMC, bytes_request 0x54433050 2)]\<rparr>)"
proof -
  let ?k = "\<lparr>world = 0 :: nat, calls = []\<rparr>"
  have len: "4 \<le> length (c_lit ''TC0P'')" by (simp add: c_lit_def)
  have h1: "SMCReadKey controller_stub 7 (c_lit ''TC0P'') (Finite 99) ?k =
     Inr (kIOReturnSuccess, Finite (53 / 2),
          \<lparr>world = 2,
           calls = [(7, KERNEL_INDEX_SMC, keyinfo_request 0x54433050),
                    (7, KERNEL_INDEX_SMC, bytes_request 0x54433050 2)]\<rparr>)"
    unfolding SMCReadKey_def SMCReadKey2_readable [OF TC0P_encoded TC0P_copied]
    by (simp add: stub_defs convertValue_def)
  have h2: "SMCReadKey (failing_stub 0 0xE00002BC) 7 (c_lit ''TC0P'') (Finite 99) ?k =
     Inr (0xE00002BC, Finite 99,
          \<lparr>world = 1,
           calls = [(7, KERNEL_INDEX_SMC, keyinfo_request 0x54433050)]\<rparr>)"
    unfolding SMCReadKey_def SMCReadKey2_readable [OF TC0P_encoded TC0P_copied]
    by (simp add: stub_defs)
  have h3: "SMCReadKey (failing_stub 1 0xE00002C1) 7 (c_lit ''TC0P'') (Finite 99) ?k =
     Inr (0xE00002C1, Finite 99,
          \<lparr>world = 2,
           calls = [(7, KERNEL_INDEX_SMC, keyinfo_request 0x54433050),
                    (7, KERNEL_INDEX_SMC, bytes_request 0x54433050 2)]\<rparr>)"
    unfolding SMCReadKey_def SMCReadKey2_readable [OF TC0P_encoded TC0P_copied]
    by (simp add: stub_defs)
  show ?thesis
    using SMCReadKey_no_partial_success [OF len, of controller_stub ?k 7 "Finite 99"]
      SMCReadKey_no_partial_success [OF len, of "failing_stub 0 0xE00002BC" ?k 7 "Finite 99"]
      SMCReadKey_no_partial_success [OF len, of "failing_stub 1 0xE00002C1" ?k 7 "Finite 99"]
      len h1 h2 h3
    by simp
qed

end
